theory Spec2Isabelle
  imports
    Main
    "HOL-Library.Char_ord"
    "HOL-Library.List_Lexorder"
    "HOL-Library.Multiset"
begin

section \<open>Strings\<close>

text \<open>
  A Python \<open>str\<close> is modelled as a HOL \<open>string\<close>. The character classes below are
  the ones Python uses on ASCII code points; text outside ASCII is not modelled.
\<close>

definition lower_char :: "char \<Rightarrow> char" where
  "lower_char c =
     (let n = (of_char c :: nat) in if 65 \<le> n \<and> n \<le> 90 then char_of (n + 32) else c)"

text \<open>\<open>s.lower()\<close>\<close>

definition lower :: "string \<Rightarrow> string" where
  "lower s = map lower_char s"

text \<open>\<open>s.startswith(p)\<close>\<close>

fun starts_with :: "string \<Rightarrow> string \<Rightarrow> bool" where
  "starts_with s [] = True"
| "starts_with [] (p # ps) = False"
| "starts_with (c # cs) (p # ps) = (c = p \<and> starts_with cs ps)"

text \<open>\<open>needle in haystack\<close> on strings: \<open>py_in needle haystack\<close>.\<close>

fun py_in :: "string \<Rightarrow> string \<Rightarrow> bool" where
  "py_in needle [] = (needle = [])"
| "py_in needle (c # cs) = (starts_with (c # cs) needle \<or> py_in needle cs)"

text \<open>The classes \<open>\s\<close>, \<open>\w\<close> and \<open>\d\<close> of \<open>re\<close> on ASCII.\<close>

definition is_space :: "char \<Rightarrow> bool" where
  "is_space c = (let n = (of_char c :: nat) in (9 \<le> n \<and> n \<le> 13) \<or> (28 \<le> n \<and> n \<le> 32))"

definition is_digit :: "char \<Rightarrow> bool" where
  "is_digit c = (let n = (of_char c :: nat) in 48 \<le> n \<and> n \<le> 57)"

definition is_word :: "char \<Rightarrow> bool" where
  "is_word c =
     (let n = (of_char c :: nat)
      in (48 \<le> n \<and> n \<le> 57) \<or> (65 \<le> n \<and> n \<le> 90) \<or> n = 95 \<or> (97 \<le> n \<and> n \<le> 122))"

text \<open>\<open>int(s)\<close> on a run of decimal digits.\<close>

definition int_of_digits :: "string \<Rightarrow> int" where
  "int_of_digits ds = foldl (\<lambda>a c. 10 * a + (int (of_char c) - 48)) 0 ds"

text \<open>\<open>d.get(key, default)\<close> on a key that may be absent.\<close>

definition get_default :: "'a \<Rightarrow> 'a option \<Rightarrow> 'a" where
  "get_default d v = (case v of None \<Rightarrow> d | Some x \<Rightarrow> x)"

section \<open>Configuration and candidates\<close>

text \<open>
  \<open>config['keywords']['en']\<close>: every list is read with \<open>.get(name, [])\<close>, so an absent
  list is the empty one.
\<close>

record keyword_config =
  auto_reject :: "string list"
  quality_boosters :: "string list"
  race_content :: "string list"
  analysis_content :: "string list"
  warning_signs :: "string list"

text \<open>\<open>config['filtering']\<close>: each key is optional and read with a default.\<close>

record filtering =
  min_quality_threshold :: "int option"
  livestream_quality_threshold :: "int option"
  live_content_bonus :: "int option"
  min_video_length_seconds :: "int option"
  video_max_age_hours :: "int option"
  duplicate_check_hours :: "int option"

text \<open>
  The \<open>video_data\<close> dictionary built by \<open>get_channel_recent_videos\<close>, with the fields the
  pipeline attaches later. A key that the code reads with \<open>.get\<close> is optional here; times
  are seconds on one clock (the code compares naive datetimes throughout).
\<close>

record video =
  video_id :: string
  title :: string
  channel_name :: string
  channel_id :: string
  published_at :: int
  url :: string
  description :: "string option"
  view_count :: "int option"
  duration :: "string option"
  is_livestream :: "bool option"
  is_upcoming :: "bool option"
  scheduled_start_time :: "int option"
  actual_start_time :: "int option"
  quality_score :: "int option"
  series_tag :: "string option"
  priority_score :: "int option"

section \<open>Content scoring (src/core/scoring.py)\<close>

text \<open>
  The first loop of \<open>calculate_content_quality_score\<close>: it returns 0 from the function at
  the first auto-reject keyword found in the lowercased title.
\<close>

fun auto_reject_hit :: "string list \<Rightarrow> string \<Rightarrow> bool" where
  "auto_reject_hit [] ttl = False"
| "auto_reject_hit (keyword # rest) ttl =
     (if py_in (lower keyword) ttl then True else auto_reject_hit rest ttl)"

text \<open>
  One of the four keyword loops: for each keyword, \<open>if\<close> it is in the title add the title
  weight, \<open>elif\<close> it is in the description add the description weight.
\<close>

fun keyword_loop :: "int \<Rightarrow> int \<Rightarrow> string list \<Rightarrow> string \<Rightarrow> string \<Rightarrow> int \<Rightarrow> int" where
  "keyword_loop wt wd [] ttl descr score = score"
| "keyword_loop wt wd (keyword # rest) ttl descr score =
     keyword_loop wt wd rest ttl descr
       (if py_in (lower keyword) ttl then score + wt
        else if py_in (lower keyword) descr then score + wd
        else score)"

definition view_count_bonus :: "int \<Rightarrow> int" where
  "view_count_bonus vc = (if vc > 5000 then 5 else if vc > 2500 then 3 else if vc > 1000 then 1 else 0)"

definition rally_stage_title :: "string \<Rightarrow> bool" where
  "rally_stage_title t =
     ((py_in ''stage'' (lower t) \<and> (py_in ''rally'' (lower t) \<or> py_in ''wrc'' (lower t)))
      \<or> py_in ''special stage'' (lower t))"

text \<open>
  \<open>ContentScorer.calculate_content_quality_score\<close>; \<open>now\<close> is \<open>datetime.now()\<close>, and
  \<open>age_hours > 24\<close> is \<open>now - published_at > 24 * 3600\<close> in seconds.
\<close>

definition calculate_content_quality_score :: "keyword_config \<Rightarrow> filtering \<Rightarrow> int \<Rightarrow> video \<Rightarrow> int" where
  "calculate_content_quality_score kw flt now v =
     (let t = lower (title v);
          d = lower (get_default [] (description v));
          vc = get_default 0 (view_count v)
      in if auto_reject_hit (auto_reject kw) t then 0
         else
           let score = 50;
               score = keyword_loop 10 5 (quality_boosters kw) t d score;
               score = keyword_loop 15 8 (race_content kw) t d score;
               score = keyword_loop 8 4 (analysis_content kw) t d score;
               score = keyword_loop (- 15) (- 8) (warning_signs kw) t d score;
               score = score + view_count_bonus vc;
               score = (if now - published_at v > 24 * 3600 \<and> vc < 500 then score - 10 else score);
               score = (if get_default False (is_livestream v)
                        then score + get_default 25 (live_content_bonus flt) else score);
               score = (if rally_stage_title t then score + 10 else score)
           in max 0 (min 100 score))"

text \<open>
  The parse \<open>re.match(r'PT(?:(\d+)H)?(?:(\d+)M)?(?:(\d+)S)?', duration)\<close>. An optional
  group takes the longest run of digits and the unit after it, or nothing.
\<close>

definition opt_group :: "char \<Rightarrow> string \<Rightarrow> int option \<times> string" where
  "opt_group u s =
     (let ds = takeWhile is_digit s; rest = dropWhile is_digit s
      in case rest of
           [] \<Rightarrow> (None, s)
         | c # cs \<Rightarrow> if ds \<noteq> [] \<and> c = u then (Some (int_of_digits ds), cs) else (None, s))"

definition match_duration :: "string \<Rightarrow> (int option \<times> int option \<times> int option) option" where
  "match_duration dur =
     (if starts_with dur ''PT''
      then (let (h, r1) = opt_group CHR ''H'' (drop 2 dur);
                (m, r2) = opt_group CHR ''M'' r1;
                (s, r3) = opt_group CHR ''S'' r2
            in Some (h, m, s))
      else None)"

definition total_seconds :: "int option \<times> int option \<times> int option \<Rightarrow> int" where
  "total_seconds g =
     (case g of (h, m, s) \<Rightarrow> get_default 0 h * 3600 + get_default 0 m * 60 + get_default 0 s)"

text \<open>\<open>ContentScorer.is_youtube_short\<close>: title markers first, then the duration.\<close>

definition ContentScorer_is_youtube_short :: "filtering \<Rightarrow> video \<Rightarrow> bool" where
  "ContentScorer_is_youtube_short flt v =
     (let t = lower (title v)
      in if py_in ''#shorts'' t \<or> py_in ''#short'' t \<or> py_in ''#youtubeshorts'' t then True
         else case duration v of
                None \<Rightarrow> False
              | Some dur \<Rightarrow>
                  if dur = [] then False
                  else (case match_duration dur of
                          None \<Rightarrow> True
                        | Some g \<Rightarrow> total_seconds g < get_default 60 (min_video_length_seconds flt)))"

text \<open>
  \<open>ContentScorer.is_acceptable_content\<close>: it stores the score in the candidate and returns
  the verdict.
\<close>

definition is_acceptable_content :: "keyword_config \<Rightarrow> filtering \<Rightarrow> int \<Rightarrow> video \<Rightarrow> bool \<times> video" where
  "is_acceptable_content kw flt now v =
     (let q = calculate_content_quality_score kw flt now v;
          v' = v\<lparr>quality_score := Some q\<rparr>;
          threshold = (if get_default False (is_livestream v')
                       then get_default 60 (livestream_quality_threshold flt)
                       else get_default 65 (min_quality_threshold flt))
      in if q < threshold then (False, v')
         else if ContentScorer_is_youtube_short flt v' then (False, v')
         else (True, v'))"

section \<open>The state store (src/core/database.py)\<close>

datatype error = ProgrammingError | IntegrityError | KeyError | RequestError

text \<open>
  The tables of \<open>init_database\<close> as lists of rows, in insertion order. A column filled by
  \<open>DEFAULT CURRENT_TIMESTAMP\<close> takes the time of the insert.
\<close>

record posted_video_row =
  pv_video_id :: string
  pv_title :: string
  pv_channel_name :: string
  pv_channel_id :: string
  pv_series_tag :: string
  pv_youtube_url :: string
  pv_lemmy_post_id :: int
  pv_posted_at :: int
  pv_priority_score :: int
  pv_quality_score :: int

record lemmy_post_row =
  lp_post_id :: int
  lp_url :: string
  lp_title :: string
  lp_created_at :: int

record duplicate_row =
  dt_video_id :: string
  dt_title_hash :: string
  dt_channel_id :: string
  dt_detected_at :: int

record cache_row =
  oc_video_id :: string
  oc_channel_id :: string
  oc_cached_at :: int
  oc_expiry :: int

record bot_stats_row =
  bs_date :: int
  bs_posts_made :: int
  bs_youtube_quota_used :: int
  bs_errors_count :: int
  bs_videos_processed :: int

record error_row =
  el_timestamp :: int
  el_error_type :: string
  el_error_message :: string
  el_module :: string
  el_function :: string

record database =
  posted_videos :: "posted_video_row list"
  lemmy_posts :: "lemmy_post_row list"
  duplicate_tracking :: "duplicate_row list"
  old_video_cache :: "cache_row list"
  bot_stats :: "bot_stats_row list"
  error_log :: "error_row list"

text \<open>\<open>datetime.now().date()\<close>, as a day number.\<close>

definition date_of :: "int \<Rightarrow> int" where
  "date_of now = now div 86400"

text \<open>
  \<open>record_posted_video\<close>: a plain \<open>INSERT\<close>; \<open>video_id\<close> is \<open>UNIQUE\<close>, so a second
  row for the same video raises.
\<close>

definition record_posted_video :: "database \<Rightarrow> int \<Rightarrow> video \<Rightarrow> int \<Rightarrow> error + database" where
  "record_posted_video db now v post_id =
     (if \<exists>r \<in> set (posted_videos db). pv_video_id r = video_id v then Inl IntegrityError
      else Inr (db\<lparr>posted_videos := posted_videos db @
             [\<lparr>pv_video_id = video_id v, pv_title = title v, pv_channel_name = channel_name v,
               pv_channel_id = channel_id v, pv_series_tag = get_default ''OTHER'' (series_tag v),
               pv_youtube_url = url v, pv_lemmy_post_id = post_id, pv_posted_at = now,
               pv_priority_score = get_default 0 (priority_score v),
               pv_quality_score = get_default 0 (quality_score v)\<rparr>]\<rparr>))"

text \<open>\<open>record_lemmy_post\<close>: \<open>INSERT OR IGNORE\<close> under \<open>UNIQUE(post_id)\<close>.\<close>

definition record_lemmy_post :: "database \<Rightarrow> int \<Rightarrow> int \<Rightarrow> string \<Rightarrow> string \<Rightarrow> database" where
  "record_lemmy_post db now post_id u name =
     (if \<exists>r \<in> set (lemmy_posts db). lp_post_id r = post_id then db
      else db\<lparr>lemmy_posts := lemmy_posts db @
             [\<lparr>lp_post_id = post_id, lp_url = u, lp_title = name, lp_created_at = now\<rparr>]\<rparr>)"

text \<open>
  SQLite's \<open>text LIKE pattern\<close>: \<open>%\<close> stands for any run of characters, \<open>_\<close> for any one
  character, and ASCII letters match without regard to case.
\<close>

fun like_match :: "string \<Rightarrow> string \<Rightarrow> bool" where
  "like_match [] [] = True"
| "like_match [] (c # cs) = False"
| "like_match (p # ps) [] = (p = CHR ''%'' \<and> like_match ps [])"
| "like_match (p # ps) (c # cs) =
     (if p = CHR ''%'' then like_match ps (c # cs) \<or> like_match (p # ps) cs
      else (p = CHR ''_'' \<or> lower_char p = lower_char c) \<and> like_match ps cs)"

text \<open>
  The normalisation of \<open>generate_title_hash\<close>, step by step:
  \<open>re.sub(r'[^\w\s]', '', s)\<close>, \<open>re.sub(r'\s+', ' ', s)\<close>, \<open>s.strip()\<close>, \<open>s.split()\<close>
  and \<open>' '.join(words)\<close>.
\<close>

definition strip_punctuation :: "string \<Rightarrow> string" where
  "strip_punctuation s = filter (\<lambda>c. is_word c \<or> is_space c) s"

fun collapse_aux :: "bool \<Rightarrow> string \<Rightarrow> string" where
  "collapse_aux in_run [] = []"
| "collapse_aux in_run (c # cs) =
     (if is_space c then (if in_run then collapse_aux True cs else CHR '' '' # collapse_aux True cs)
      else c # collapse_aux False cs)"

definition collapse_whitespace :: "string \<Rightarrow> string" where
  "collapse_whitespace s = collapse_aux False s"

definition strip :: "string \<Rightarrow> string" where
  "strip s = rev (dropWhile is_space (rev (dropWhile is_space s)))"

fun split_aux :: "string \<Rightarrow> string \<Rightarrow> string list" where
  "split_aux [] cur = (if cur = [] then [] else [rev cur])"
| "split_aux (c # cs) cur =
     (if is_space c then (if cur = [] then split_aux cs [] else rev cur # split_aux cs [])
      else split_aux cs (c # cur))"

definition split :: "string \<Rightarrow> string list" where
  "split s = split_aux s []"

fun join_spaces :: "string list \<Rightarrow> string" where
  "join_spaces [] = []"
| "join_spaces [w] = w"
| "join_spaces (w # ws) = w @ CHR '' '' # join_spaces ws"

definition common_words :: "string list" where
  "common_words =
     [''highlights'', ''race'', ''qualifying'', ''practice'', ''session'', ''live'', ''full'',
      ''rally'', ''stage'', ''wrc'', ''special'']"

definition normalized_title :: "string \<Rightarrow> string" where
  "normalized_title t = strip (collapse_whitespace (strip_punctuation (lower t)))"

text \<open>The list \<open>words\<close> of \<open>generate_title_hash\<close>: the tokens left after the common words.\<close>

definition title_words :: "string \<Rightarrow> string list" where
  "title_words t = filter (\<lambda>w. w \<notin> set common_words) (split (normalized_title t))"

text \<open>
  \<open>generate_title_hash\<close>. The digest \<open>hashlib.md5(content.encode()).hexdigest()\<close> is a
  library function, taken as the parameter \<open>md5\<close>.
\<close>

definition generate_title_hash :: "(string \<Rightarrow> string) \<Rightarrow> string \<Rightarrow> string" where
  "generate_title_hash md5 t = take 16 (md5 (join_spaces (sort (title_words t))))"

text \<open>
  \<open>check_for_duplicates\<close>, returning the verdict and the database. The last statement is
  \<open>INSERT OR IGNORE\<close> under \<open>UNIQUE(video_id, title_hash)\<close>: it adds no row when one with
  the same pair is there, whatever its age and channel.
\<close>

definition insert_duplicate_tracking :: "database \<Rightarrow> int \<Rightarrow> string \<Rightarrow> string \<Rightarrow> string \<Rightarrow> database" where
  "insert_duplicate_tracking db now vid h cid =
     (if \<exists>r \<in> set (duplicate_tracking db). dt_video_id r = vid \<and> dt_title_hash r = h then db
      else db\<lparr>duplicate_tracking := duplicate_tracking db @
             [\<lparr>dt_video_id = vid, dt_title_hash = h, dt_channel_id = cid, dt_detected_at = now\<rparr>]\<rparr>)"

definition check_for_duplicates ::
  "(string \<Rightarrow> string) \<Rightarrow> database \<Rightarrow> int \<Rightarrow> string \<Rightarrow> string \<Rightarrow> string \<Rightarrow> int \<Rightarrow> bool \<times> database" where
  "check_for_duplicates md5 db now vid t cid hours =
     (if length (filter (\<lambda>r. pv_video_id r = vid) (posted_videos db)) > 0 then (True, db)
      else if length (filter (\<lambda>r. like_match (''%'' @ vid @ ''%'') (lp_url r)) (lemmy_posts db)) > 0
      then (True, db)
      else
        let cutoff_time = now - hours * 3600;
            title_hash = generate_title_hash md5 t
        in if length (filter (\<lambda>r. dt_title_hash r = title_hash \<and> dt_channel_id r = cid
                                    \<and> dt_detected_at r > cutoff_time) (duplicate_tracking db)) > 0
           then (True, db)
           else (False, insert_duplicate_tracking db now vid title_hash cid))"

definition is_video_in_old_cache :: "database \<Rightarrow> int \<Rightarrow> string \<Rightarrow> bool" where
  "is_video_in_old_cache db now vid =
     (\<exists>r \<in> set (old_video_cache db). oc_video_id r = vid \<and> oc_expiry r > now)"

text \<open>
  \<open>add_video_to_old_cache\<close>. For a livestream it returns at once. Otherwise it executes
  \<^verbatim>\<open>INSERT OR REPLACE INTO old_video_cache (video_id, channel_id, cached_at, expiry)
  VALUES (?, ?, datetime('now'), datetime('now', '+? days'))\<close>
  with the three parameters \<open>(video_id, channel_id, days)\<close>. The third question mark is
  inside an SQL string literal, so the statement has two placeholders; \<open>sqlite3\<close> refuses
  three bindings for two placeholders with \<open>ProgrammingError\<close>, and \<open>execute_and_commit\<close>
  rolls back and raises again.
\<close>

definition add_video_to_old_cache :: "database \<Rightarrow> string \<Rightarrow> string \<Rightarrow> bool \<Rightarrow> int \<Rightarrow> error + database" where
  "add_video_to_old_cache db vid cid livestream days =
     (if livestream then Inr db else Inl ProgrammingError)"

text \<open>\<open>update_bot_stats\<close>: read today's row, then update it or insert it.\<close>

definition update_bot_stats :: "database \<Rightarrow> int \<Rightarrow> int \<Rightarrow> int \<Rightarrow> int \<Rightarrow> int \<Rightarrow> database" where
  "update_bot_stats db now posts quota errors processed =
     (let today = date_of now
      in if \<exists>r \<in> set (bot_stats db). bs_date r = today
         then db\<lparr>bot_stats := map (\<lambda>r. if bs_date r = today
                   then r\<lparr>bs_posts_made := bs_posts_made r + posts,
                          bs_youtube_quota_used := bs_youtube_quota_used r + quota,
                          bs_errors_count := bs_errors_count r + errors,
                          bs_videos_processed := bs_videos_processed r + processed\<rparr>
                   else r) (bot_stats db)\<rparr>
         else db\<lparr>bot_stats := bot_stats db @
                [\<lparr>bs_date = today, bs_posts_made = posts, bs_youtube_quota_used = quota,
                  bs_errors_count = errors, bs_videos_processed = processed\<rparr>]\<rparr>)"

text \<open>\<open>get_recent_posts_count\<close>: \<open>SELECT COUNT(*) FROM posted_videos WHERE posted_at > ?\<close>.\<close>

definition get_recent_posts_count :: "database \<Rightarrow> int \<Rightarrow> int \<Rightarrow> int" where
  "get_recent_posts_count db now hours =
     (let cutoff_time = now - hours * 3600
      in int (length (filter (\<lambda>r. pv_posted_at r > cutoff_time) (posted_videos db))))"

text \<open>\<open>get_youtube_quota_usage\<close>: the counter of today's row, or 0 without one.\<close>

definition get_youtube_quota_usage :: "database \<Rightarrow> int \<Rightarrow> int" where
  "get_youtube_quota_usage db now =
     (case find (\<lambda>r. bs_date r = date_of now) (bot_stats db) of
        None \<Rightarrow> 0
      | Some r \<Rightarrow> bs_youtube_quota_used r)"

definition log_error :: "database \<Rightarrow> int \<Rightarrow> string \<Rightarrow> string \<Rightarrow> string \<Rightarrow> string \<Rightarrow> database" where
  "log_error db now ty msg modl fn =
     db\<lparr>error_log := error_log db @
        [\<lparr>el_timestamp = now, el_error_type = ty, el_error_message = msg, el_module = modl,
          el_function = fn\<rparr>]\<rparr>"

section \<open>The video source client (src/api/youtube.py)\<close>

record youtube_api =
  quota_used_this_run :: int
  daily_quota_limit :: int
  run_quota_limit :: int

text \<open>
  \<open>track_quota_usage\<close>: add the cost to the counter of the run and, with a database, to
  the counter of today's \<open>bot_stats\<close> row (read, then update or insert).
\<close>

definition track_quota_usage ::
  "youtube_api \<Rightarrow> database option \<Rightarrow> int \<Rightarrow> int \<Rightarrow> youtube_api \<times> database option" where
  "track_quota_usage api db now cost =
     (api\<lparr>quota_used_this_run := quota_used_this_run api + cost\<rparr>,
      case db of
        None \<Rightarrow> None
      | Some d \<Rightarrow>
          (let today = date_of now
           in if \<exists>r \<in> set (bot_stats d). bs_date r = today
              then Some (d\<lparr>bot_stats := map (\<lambda>r. if bs_date r = today
                        then r\<lparr>bs_youtube_quota_used := bs_youtube_quota_used r + cost\<rparr>
                        else r) (bot_stats d)\<rparr>)
              else Some (d\<lparr>bot_stats := bot_stats d @
                     [\<lparr>bs_date = today, bs_posts_made = 0, bs_youtube_quota_used = cost,
                       bs_errors_count = 0, bs_videos_processed = 0\<rparr>]\<rparr>)))"

text \<open>
  \<open>check_quota_limit\<close>, with the state it is called in and the state it leaves: the
  per-run check, then the daily check when there is a database.
\<close>

definition check_quota_limit ::
  "youtube_api \<Rightarrow> database option \<Rightarrow> int \<Rightarrow> int \<Rightarrow> bool \<times> youtube_api \<times> database option" where
  "check_quota_limit api db now estimated_cost =
     (if quota_used_this_run api + estimated_cost > run_quota_limit api then (False, api, db)
      else case db of
             None \<Rightarrow> (True, api, db)
           | Some d \<Rightarrow>
               (let daily_usage = get_youtube_quota_usage d now
                in if daily_usage + estimated_cost > daily_quota_limit api then (False, api, db)
                   else (True, api, db)))"

text \<open>
  \<open>YouTubeAPI.is_youtube_short\<close>: the duration \<open>'P0D'\<close> of a live broadcast is never a
  short; any other text that does not start with \<open>PT\<close> is one.
\<close>

definition YouTubeAPI_is_youtube_short :: "filtering \<Rightarrow> string \<Rightarrow> bool" where
  "YouTubeAPI_is_youtube_short flt dur =
     (if dur = ''P0D'' then False
      else case match_duration dur of
             None \<Rightarrow> True
           | Some g \<Rightarrow> total_seconds g < get_default 60 (min_video_length_seconds flt))"

text \<open>An item of the \<open>videos().list\<close> response, with the fields the client reads.\<close>

record live_details =
  scheduledStartTime :: "int option"
  actualStartTime :: "int option"
  actualEndTime :: "int option"

record video_info =
  vi_id :: string
  vi_title :: string
  vi_channelTitle :: string
  vi_channelId :: string
  vi_publishedAt :: int
  vi_description :: string
  vi_viewCount :: "int option"
  vi_duration :: string
  liveStreamingDetails :: "live_details option"

text \<open>
  The flags \<open>is_livestream\<close> and \<open>is_upcoming\<close> of \<open>get_channel_recent_videos\<close>: upcoming
  when a scheduled start is given, live when an actual start is given and no actual end.
\<close>

definition stream_is_upcoming :: "video_info \<Rightarrow> bool" where
  "stream_is_upcoming vi =
     (case liveStreamingDetails vi of None \<Rightarrow> False | Some ld \<Rightarrow> scheduledStartTime ld \<noteq> None)"

definition stream_is_livestream :: "video_info \<Rightarrow> bool" where
  "stream_is_livestream vi =
     (case liveStreamingDetails vi of
        None \<Rightarrow> False
      | Some ld \<Rightarrow> actualStartTime ld \<noteq> None \<and> actualEndTime ld = None)"

definition stream_scheduled_start :: "video_info \<Rightarrow> int option" where
  "stream_scheduled_start vi =
     (case liveStreamingDetails vi of None \<Rightarrow> None | Some ld \<Rightarrow> scheduledStartTime ld)"

definition stream_actual_start :: "video_info \<Rightarrow> int option" where
  "stream_actual_start vi =
     (case liveStreamingDetails vi of None \<Rightarrow> None | Some ld \<Rightarrow> actualStartTime ld)"

text \<open>
  The three discarding branches of the loop share their body:
  \<open>if self.db: self.db.add_video_to_old_cache(video_id, channel_id, is_livestream=False)\<close>
  and \<open>continue\<close>. The number of days is the default, 30.
\<close>

definition cache_and_skip ::
  "database option \<Rightarrow> string \<Rightarrow> string \<Rightarrow> error + (database option \<times> video option)" where
  "cache_and_skip db vid cid =
     (case db of
        None \<Rightarrow> Inr (None, None)
      | Some d \<Rightarrow>
          (case add_video_to_old_cache d vid cid False 30 of
             Inl e \<Rightarrow> Inl e
           | Inr d' \<Rightarrow> Inr (Some d', None)))"

definition make_video_data :: "video_info \<Rightarrow> video" where
  "make_video_data vi =
     \<lparr>video_id = vi_id vi, title = vi_title vi, channel_name = vi_channelTitle vi,
      channel_id = vi_channelId vi, published_at = vi_publishedAt vi,
      url = ''https://www.youtube.com/watch?v='' @ vi_id vi,
      description = Some (vi_description vi),
      view_count = Some (get_default 0 (vi_viewCount vi)),
      duration = Some (vi_duration vi),
      is_livestream = Some (stream_is_livestream vi),
      is_upcoming = Some (stream_is_upcoming vi),
      scheduled_start_time = stream_scheduled_start vi,
      actual_start_time = stream_actual_start vi,
      quality_score = None, series_tag = None, priority_score = None\<rparr>"

text \<open>
  The body of the loop over the detailed items in \<open>get_channel_recent_videos\<close>: the item
  is discarded (\<open>None\<close>) or becomes a candidate. An exception of the cache write is not an
  \<open>HttpError\<close>, so it leaves the function.
\<close>

definition classify_video_info ::
  "filtering \<Rightarrow> database option \<Rightarrow> int \<Rightarrow> video_info \<Rightarrow> error + (database option \<times> video option)" where
  "classify_video_info flt db now vi =
     (let cutoff_date = now - get_default 24 (video_max_age_hours flt) * 3600
      in if \<not> stream_is_livestream vi \<and> \<not> stream_is_upcoming vi \<and> vi_publishedAt vi < cutoff_date
         then cache_and_skip db (vi_id vi) (vi_channelId vi)
         else if stream_is_upcoming vi
                 \<and> (case stream_scheduled_start vi of None \<Rightarrow> False | Some s \<Rightarrow> s < now)
         then cache_and_skip db (vi_id vi) (vi_channelId vi)
         else if YouTubeAPI_is_youtube_short flt (vi_duration vi)
         then cache_and_skip db (vi_id vi) (vi_channelId vi)
         else Inr (db, Some (make_video_data vi)))"

section \<open>The orchestrator (src/core/bot.py)\<close>

record bot =
  scan_interval :: int
  max_posts_per_run :: int
  max_posts_per_day :: int
  max_posts_per_hour :: int
  time_between_posts :: int
  test_mode :: bool

text \<open>
  \<open>should_post_video\<close>. Reading \<open>video_data['quality_score']\<close> raises \<open>KeyError\<close> on a
  candidate that carries no score.
\<close>

definition should_post_video ::
  "bot \<Rightarrow> filtering \<Rightarrow> database option \<Rightarrow> int \<Rightarrow> video \<Rightarrow> error + bool" where
  "should_post_video b flt db now v =
     (case db of
        None \<Rightarrow> Inr True
      | Some d \<Rightarrow>
          if get_recent_posts_count d now 24 \<ge> max_posts_per_day b then Inr False
          else if get_recent_posts_count d now 1 \<ge> max_posts_per_hour b then Inr False
          else if get_default False (is_livestream v)
          then (case quality_score v of
                  None \<Rightarrow> Inl KeyError
                | Some q \<Rightarrow>
                    if q < get_default 60 (livestream_quality_threshold flt) then Inr False
                    else Inr True)
          else (case quality_score v of
                  None \<Rightarrow> Inl KeyError
                | Some q \<Rightarrow>
                    if q < get_default 65 (min_quality_threshold flt) then Inr False
                    else Inr True))"

text \<open>
  What lies outside the repository: the digest and \<open>html.unescape\<close> of the standard
  library, and the answers of the forum to \<open>get_community_id\<close> and to the request of
  \<open>create_post\<close> for a candidate (an exception, no post, or a post with its id).
\<close>

datatype post_outcome = PostRaises | PostFailed | PostCreated int

record world =
  md5_hexdigest :: "string \<Rightarrow> string"
  html_unescape :: "string \<Rightarrow> string"
  lemmy_community_id :: "int option"
  lemmy_post_request :: "video \<Rightarrow> post_outcome"

definition hex_value :: "char \<Rightarrow> int" where
  "hex_value c =
     (let n = int (of_char c)
      in if 48 \<le> n \<and> n \<le> 57 then n - 48
         else if 97 \<le> n \<and> n \<le> 102 then n - 87
         else if 65 \<le> n \<and> n \<le> 70 then n - 55
         else 0)"

text \<open>\<open>int(digest, 16)\<close> on the hexadecimal digits of a digest.\<close>

definition int_of_hex :: "string \<Rightarrow> int" where
  "int_of_hex s = foldl (\<lambda>a c. 16 * a + hex_value c) 0 s"

text \<open>
  \<open>LemmyAPI.create_post\<close>: on a created post it records the post in \<open>lemmy_posts\<close> when
  it has a database, and returns the post.
\<close>

definition create_post ::
  "world \<Rightarrow> database option \<Rightarrow> int \<Rightarrow> video \<Rightarrow> string \<Rightarrow> error + (int option \<times> database option)" where
  "create_post w db now v name =
     (case lemmy_post_request w v of
        PostRaises \<Rightarrow> Inl RequestError
      | PostFailed \<Rightarrow> Inr (None, db)
      | PostCreated pid \<Rightarrow>
          Inr (Some pid, map_option (\<lambda>d. record_lemmy_post d now pid (url v) name) db))"

text \<open>
  The handler \<open>except Exception\<close> of \<open>create_lemmy_post\<close>: log the error when there is a
  database, and return \<open>None\<close>.
\<close>

definition post_creation_failed :: "database option \<Rightarrow> int \<Rightarrow> int option \<times> database option" where
  "post_creation_failed db now =
     (None, map_option (\<lambda>d. log_error d now ''post_creation'' ''exception'' ''bot.py''
                               ''create_lemmy_post'') db)"

text \<open>
  \<open>create_lemmy_post\<close>: the post id, or \<open>None\<close>, and the database it leaves. The title
  and the body read \<open>series_tag\<close> and \<open>quality_score\<close> of the candidate.
\<close>

definition create_lemmy_post ::
  "bot \<Rightarrow> world \<Rightarrow> database option \<Rightarrow> int \<Rightarrow> video \<Rightarrow> int option \<times> database option" where
  "create_lemmy_post b w db now v =
     (if lemmy_community_id w = None \<or> lemmy_community_id w = Some 0 then (None, db)
      else case (series_tag v, quality_score v) of
             (None, _) \<Rightarrow> post_creation_failed db now
           | (Some tag, None) \<Rightarrow> post_creation_failed db now
           | (Some tag, Some q) \<Rightarrow>
               (let post_title = ''['' @ tag @ ''] '' @ html_unescape w (title v)
                in if test_mode b
                   then (let fake_post_id = int_of_hex (md5_hexdigest w (video_id v)) mod 10000000
                         in case db of
                              None \<Rightarrow> (Some fake_post_id, None)
                            | Some d \<Rightarrow>
                                (case record_posted_video d now v fake_post_id of
                                   Inl e \<Rightarrow> post_creation_failed db now
                                 | Inr d' \<Rightarrow> (Some fake_post_id, Some d')))
                   else (case create_post w db now v post_title of
                           Inl e \<Rightarrow> post_creation_failed db now
                         | Inr (None, db1) \<Rightarrow> (None, db1)
                         | Inr (Some post_id, db1) \<Rightarrow>
                             (case db1 of
                                None \<Rightarrow> (Some post_id, None)
                              | Some d \<Rightarrow>
                                  (case record_posted_video d now v post_id of
                                     Inl e \<Rightarrow> post_creation_failed db1 now
                                   | Inr d' \<Rightarrow> (Some post_id, Some d'))))))"

text \<open>
  The state of the publishing loop of \<open>run_once\<close>: the database, the clock (advanced by
  \<open>time.sleep\<close>) and the two counters.
\<close>

record cycle =
  c_db :: "database option"
  c_clock :: int
  c_posts_made :: int
  c_errors :: int

text \<open>
  The loop \<open>for video in candidate_videos\<close> of \<open>run_once\<close>. An exception of
  \<open>should_post_video\<close> is raised outside the inner \<open>try\<close> and ends the loop.
\<close>

fun process_candidates ::
  "bot \<Rightarrow> filtering \<Rightarrow> world \<Rightarrow> video list \<Rightarrow> cycle \<Rightarrow> error + cycle" where
  "process_candidates b flt w [] c = Inr c"
| "process_candidates b flt w (v # vs) c =
     (if c_posts_made c \<ge> max_posts_per_run b then Inr c
      else case should_post_video b flt (c_db c) (c_clock c) v of
             Inl e \<Rightarrow> Inl e
           | Inr False \<Rightarrow> process_candidates b flt w vs c
           | Inr True \<Rightarrow>
               (case create_lemmy_post b w (c_db c) (c_clock c) v of
                  (post_id, db') \<Rightarrow>
                    if post_id \<noteq> None \<and> post_id \<noteq> Some 0
                    then (let posts = c_posts_made c + 1;
                              clock' = (if time_between_posts b > 0 \<and> posts < max_posts_per_run b
                                        then c_clock c + time_between_posts b else c_clock c)
                          in process_candidates b flt w vs
                               (c\<lparr>c_db := db', c_clock := clock', c_posts_made := posts\<rparr>))
                    else process_candidates b flt w vs
                           (c\<lparr>c_db := db', c_errors := c_errors c + 1\<rparr>)))"

section \<open>Example data\<close>

text \<open>The keyword lists and thresholds of the configuration used in tests/test_scoring.py.\<close>

definition kw_ex :: keyword_config where
  "kw_ex =
     \<lparr>auto_reject = [''shorts'', ''podcast''], quality_boosters = [''official'', ''live''],
      race_content = [''race'', ''qualifying''], analysis_content = [''analysis'', ''review''],
      warning_signs = [''reaction'', ''rumor'']\<rparr>"

definition flt_ex :: filtering where
  "flt_ex =
     \<lparr>min_quality_threshold = Some 65, livestream_quality_threshold = Some 60,
      live_content_bonus = None, min_video_length_seconds = None, video_max_age_hours = None,
      duplicate_check_hours = None\<rparr>"

text \<open>An ordinary ten-minute video published at time 0, with a title and a description.\<close>

definition candidate :: "string \<Rightarrow> string \<Rightarrow> video" where
  "candidate ttl descr =
     \<lparr>video_id = ''vid00000001'', title = ttl, channel_name = ''Channel'', channel_id = ''UC1'',
      published_at = 0, url = ''https://www.youtube.com/watch?v=vid00000001'',
      description = Some descr, view_count = Some 0, duration = Some ''PT10M'',
      is_livestream = Some False, is_upcoming = Some False, scheduled_start_time = None,
      actual_start_time = None, quality_score = None, series_tag = None, priority_score = None\<rparr>"

text \<open>A broadcast that is live: the flag is set and the duration is \<open>'P0D'\<close>.\<close>

definition live_ex :: video where
  "live_ex =
     (candidate ''Official Race Live'' [])\<lparr>duration := Some ''P0D'', is_livestream := Some True\<rparr>"

definition posted_row :: "string \<Rightarrow> int \<Rightarrow> posted_video_row" where
  "posted_row vid t =
     \<lparr>pv_video_id = vid, pv_title = ''Earlier post'', pv_channel_name = ''Channel'',
      pv_channel_id = ''UC1'', pv_series_tag = ''OTHER'',
      pv_youtube_url = ''https://www.youtube.com/watch?v='' @ vid, pv_lemmy_post_id = 1,
      pv_posted_at = t, pv_priority_score = 5, pv_quality_score = 70\<rparr>"

text \<open>A database with two published records, made at the seconds 100000 and 170000.\<close>

definition db_ex :: database where
  "db_ex =
     \<lparr>posted_videos = [posted_row ''old00000001'' 100000, posted_row ''old00000002'' 170000],
      lemmy_posts = [], duplicate_tracking = [], old_video_cache = [], bot_stats = [],
      error_log = []\<rparr>"

definition bot_ex :: bot where
  "bot_ex =
     \<lparr>scan_interval = 30, max_posts_per_run = 5, max_posts_per_day = 100,
      max_posts_per_hour = 20, time_between_posts = 60, test_mode = False\<rparr>"

text \<open>The ordinary candidate after scoring, carrying the score \<open>q\<close>.\<close>

definition scored :: "int \<Rightarrow> video" where
  "scored q = (candidate ''Race report'' ''Report'')\<lparr>quality_score := Some q\<rparr>"

section \<open>Substring search and the keyword loops\<close>

lemma starts_with_iff: "starts_with h n \<longleftrightarrow> (\<exists>s. h = n @ s)"
  by (induction h n rule: starts_with.induct) auto

text \<open>\<open>py_in\<close> is the substring relation.\<close>

lemma py_in_iff: "py_in n h \<longleftrightarrow> (\<exists>p s. h = p @ n @ s)"
proof (induction h)
  case Nil
  then show ?case by simp
next
  case (Cons c cs)
  show ?case
  proof
    assume "py_in n (c # cs)"
    then consider "starts_with (c # cs) n" | "py_in n cs" by auto
    then show "\<exists>p s. c # cs = p @ n @ s"
    proof cases
      case 1
      then obtain s where "c # cs = n @ s" by (auto simp: starts_with_iff)
      then have "c # cs = [] @ n @ s" by simp
      then show ?thesis by blast
    next
      case 2
      then obtain p s where "cs = p @ n @ s" using Cons.IH by blast
      then have "c # cs = (c # p) @ n @ s" by simp
      then show ?thesis by blast
    qed
  next
    assume "\<exists>p s. c # cs = p @ n @ s"
    then obtain p s where e: "c # cs = p @ n @ s" by blast
    show "py_in n (c # cs)"
    proof (cases p)
      case Nil
      with e have "starts_with (c # cs) n" by (auto simp: starts_with_iff)
      then show ?thesis by simp
    next
      case (Cons a p')
      with e have "cs = p' @ n @ s" by simp
      then have "py_in n cs" using Cons.IH by blast
      then show ?thesis by simp
    qed
  qed
qed

lemma auto_reject_hit_iff: "auto_reject_hit ks t \<longleftrightarrow> (\<exists>k\<in>set ks. py_in (lower k) t)"
  by (induction ks) auto

section \<open>The quality score\<close>

text \<open>
  Claim C1. For every candidate the quality score is an integer from 0 to 100, and when
  the lowercased title contains the lowercased form of any configured auto-reject keyword,
  the score is exactly 0, whatever the other fields of the candidate are.
\<close>

theorem score_range_and_auto_reject:
  "0 \<le> calculate_content_quality_score kw flt now v
   \<and> calculate_content_quality_score kw flt now v \<le> 100
   \<and> ((\<exists>k \<in> set (auto_reject kw). py_in (lower k) (lower (title v)))
        \<longrightarrow> calculate_content_quality_score kw flt now v = 0)"
  by (simp add: calculate_content_quality_score_def Let_def auto_reject_hit_iff)

theorem score_range_and_auto_reject_witness:
  "(\<exists>k \<in> set (auto_reject kw_ex).
      py_in (lower k) (lower (title (candidate ''Race highlights #SHORTS'' ''Quick highlights''))))
   \<and> calculate_content_quality_score kw_ex flt_ex 0
        (candidate ''Race highlights #SHORTS'' ''Quick highlights'') = 0"
proof -
  have h: "\<exists>k \<in> set (auto_reject kw_ex).
      py_in (lower k) (lower (title (candidate ''Race highlights #SHORTS'' ''Quick highlights'')))"
    by code_simp
  with score_range_and_auto_reject
         [of kw_ex flt_ex 0 "candidate ''Race highlights #SHORTS'' ''Quick highlights''"]
  show ?thesis by blast
qed

text \<open>
  Claim C8, as stated, fails: with the quality boosters \<open>official\<close> and \<open>live\<close>, the title
  \<open>Official statement\<close> matches the category, and still the description
  \<open>live coverage\<close> adds its 5 points (65 instead of 60).
\<close>

theorem description_points_despite_title_match:
  "py_in (lower ''official'') (lower (title (candidate ''Official statement'' ''live coverage'')))
   \<and> calculate_content_quality_score kw_ex flt_ex 0
        (candidate ''Official statement'' ''live coverage'') = 65
   \<and> calculate_content_quality_score kw_ex flt_ex 0 (candidate ''Official statement'' []) = 60"
  by code_simp

text \<open>
  Claim C8, amended. The title takes precedence keyword by keyword, not category by
  category: each loop adds, for every keyword of the category, the title weight when that
  keyword is in the title, otherwise the description weight when that keyword is in the
  description, otherwise nothing. So description points are withheld only for the
  keywords that themselves match the title.
\<close>

theorem keyword_loop_per_keyword:
  "keyword_loop wt wd ks t d s =
     s + (\<Sum>k\<leftarrow>ks. if py_in (lower k) t then wt else if py_in (lower k) d then wd else 0)"
  by (induction ks arbitrary: s) auto

section \<open>Short-form checks\<close>

text \<open>
  Claim C7 fails in the scorer. The client's check exempts the duration \<open>'P0D'\<close> of a live
  broadcast; the scorer's check of the same name has no such case, finds that \<open>'P0D'\<close>
  does not match the pattern and calls the broadcast a short. A live candidate whose
  score is 100 is therefore rejected by \<open>is_acceptable_content\<close>.
\<close>

theorem scorer_calls_live_sentinel_short:
  "YouTubeAPI_is_youtube_short flt_ex ''P0D'' = False
   \<and> ContentScorer_is_youtube_short flt_ex live_ex = True
   \<and> calculate_content_quality_score kw_ex flt_ex 0 live_ex = 100
   \<and> fst (is_acceptable_content kw_ex flt_ex 0 live_ex) = False"
  by code_simp

section \<open>Admission to publication\<close>

text \<open>
  Claim C10. Without a database \<open>should_post_video\<close> answers yes for every candidate:
  no cap and no threshold is looked at.
\<close>

theorem should_post_video_without_db: "should_post_video b flt None now v = Inr True"
  by (simp add: should_post_video_def)

text \<open>
  Claim C4. With a database, \<open>should_post_video\<close> answers no when the number of records
  published in the last 24 hours has reached the daily cap, whatever the score; likewise
  when the number of the last hour has reached the hourly cap; otherwise it answers no
  exactly when the score is below the threshold that applies, the livestream threshold
  for a live candidate and the ordinary one for any other.
\<close>

theorem should_post_video_admit:
  "(get_recent_posts_count d now 24 \<ge> max_posts_per_day b
      \<longrightarrow> should_post_video b flt (Some d) now v = Inr False)
   \<and> (get_recent_posts_count d now 1 \<ge> max_posts_per_hour b
      \<longrightarrow> should_post_video b flt (Some d) now v = Inr False)
   \<and> (get_recent_posts_count d now 24 < max_posts_per_day b
       \<and> get_recent_posts_count d now 1 < max_posts_per_hour b
       \<and> quality_score v = Some q
      \<longrightarrow> should_post_video b flt (Some d) now v =
            Inr (\<not> q < (if get_default False (is_livestream v)
                         then get_default 60 (livestream_quality_threshold flt)
                         else get_default 65 (min_quality_threshold flt))))"
  by (auto simp add: should_post_video_def)

end
